theory Spec2Isabelle
  imports Complex_Main
begin

section \<open>The products service: models and endpoints\<close>

text \<open>
  A shallow embedding of \<^verbatim>\<open>app/models/products.py\<close> and
  \<^verbatim>\<open>app/endpoints/products.py\<close>. The model classes are records, the
  committed database is a record of tables that every operation takes and returns,
  and every \<^verbatim>\<open>raise\<close> is a value \<open>Inl e\<close> of the result.

  What the repository does not contain is kept apart from what it does:
  \<^item> the database engine behind the ORM is a parameter (\<open>engine\<close>): how it
    adapts a Python value to a column of a declared type, and whether it enforces
    foreign keys;
  \<^item> a request runs in a session of its own, so an operation that raises before
    \<^verbatim>\<open>db.session.commit()\<close> leaves the committed tables as they were;
  \<^item> a Python \<^verbatim>\<open>float\<close> is the rational it denotes (JSON numbers are
    finite), and text is a list of characters.
\<close>

subsection \<open>Python values\<close>

text \<open>What \<^verbatim>\<open>request.json\<close> can hold. A \<open>PDict\<close> lists its items in insertion order.\<close>

datatype pyval =
    PNone
  | PBool bool
  | PInt int
  | PFloat rat
  | PStr string
  | PList "pyval list"
  | PDict "(string \<times> pyval) list"

datatype reason = Unknown_brand | Unknown_category | Brand_required | Categories_required

datatype error =
    InvalidPayload reason
  | ValueError
  | TypeError
  | AttributeError
  | NoResultFound
  | DatabaseError

text \<open>Sequencing of statements that may raise.\<close>

definition then_do :: "error + 'a \<Rightarrow> ('a \<Rightarrow> error + 'b) \<Rightarrow> error + 'b" where
  "then_do r f = (case r of Inl e \<Rightarrow> Inl e | Inr x \<Rightarrow> f x)"

text \<open>Truth value testing (\<^verbatim>\<open>if x:\<close>, \<^verbatim>\<open>not x\<close>).\<close>

fun truthy :: "pyval \<Rightarrow> bool" where
  "truthy PNone = False"
| "truthy (PBool b) = b"
| "truthy (PInt n) = (n \<noteq> 0)"
| "truthy (PFloat r) = (r \<noteq> 0)"
| "truthy (PStr s) = (s \<noteq> [])"
| "truthy (PList xs) = (xs \<noteq> [])"
| "truthy (PDict d) = (d \<noteq> [])"

text \<open>\<^verbatim>\<open>len(x)\<close>: defined on text, lists and dicts; a TypeError elsewhere.\<close>

fun py_len :: "pyval \<Rightarrow> error + int" where
  "py_len (PStr s) = Inr (int (length s))"
| "py_len (PList xs) = Inr (int (length xs))"
| "py_len (PDict d) = Inr (int (length d))"
| "py_len _ = Inl TypeError"

text \<open>\<^verbatim>\<open>x < 0\<close>: defined on numbers (a bool is the integer 0 or 1); a TypeError elsewhere.\<close>

fun lt_zero :: "pyval \<Rightarrow> error + bool" where
  "lt_zero (PInt n) = Inr (n < 0)"
| "lt_zero (PFloat r) = Inr (r < 0)"
| "lt_zero (PBool b) = Inr False"
| "lt_zero _ = Inl TypeError"

text \<open>\<^verbatim>\<open>for name in x\<close>: a list yields its elements, text its characters, a dict its keys.\<close>

fun iterate :: "pyval \<Rightarrow> error + pyval list" where
  "iterate (PList xs) = Inr xs"
| "iterate (PStr s) = Inr (map (\<lambda>c. PStr [c]) s)"
| "iterate (PDict d) = Inr (map (\<lambda>kv. PStr (fst kv)) d)"
| "iterate _ = Inl TypeError"

text \<open>
  Dict keys: lists and dicts are unhashable; numbers that are equal are the same key
  (\<^verbatim>\<open>1 == 1.0 == True\<close>), which \<open>py_key\<close> normalises.
\<close>

fun hashable :: "pyval \<Rightarrow> bool" where
  "hashable (PList xs) = False"
| "hashable (PDict d) = False"
| "hashable _ = True"

fun py_key :: "pyval \<Rightarrow> pyval" where
  "py_key (PBool b) = PInt (if b then 1 else 0)"
| "py_key (PFloat r) = (if r = of_int \<lfloor>r\<rfloor> then PInt \<lfloor>r\<rfloor> else PFloat r)"
| "py_key v = v"

text \<open>\<^verbatim>\<open>d[k] = v\<close>: an existing key keeps its position, a new key goes last.\<close>

fun dict_set :: "('k \<times> 'v) list \<Rightarrow> 'k \<Rightarrow> 'v \<Rightarrow> ('k \<times> 'v) list" where
  "dict_set [] k v = [(k, v)]"
| "dict_set (kv # d) k v = (if fst kv = k then (k, v) # d else kv # dict_set d k v)"

subsection \<open>Validators\<close>

definition validate_name :: "pyval \<Rightarrow> error + pyval" where
  "validate_name name =
     then_do (py_len name) (\<lambda>name_len.
       if name_len < 0 \<or> 50 < name_len then Inl ValueError else Inr name)"

definition validate_featured :: "pyval \<Rightarrow> error + pyval" where
  "validate_featured featured =
     (case featured of PBool b \<Rightarrow> Inr featured | _ \<Rightarrow> Inl ValueError)"

definition validate_rating :: "pyval \<Rightarrow> error + pyval" where
  "validate_rating rating =
     then_do (lt_zero rating) (\<lambda>negative.
       if negative then Inl ValueError else Inr rating)"

definition validate_items_in_stock :: "pyval \<Rightarrow> error + pyval" where
  "validate_items_in_stock items_in_stock =
     then_do (lt_zero items_in_stock) (\<lambda>negative.
       if negative then Inl ValueError else Inr items_in_stock)"

subsection \<open>The data model\<close>

type_synonym datetime = string

record brand =
  Brand_id :: int
  Brand_name :: string
  country_code :: string

record category =
  Category_id :: int
  Category_name :: string

text \<open>
  A row of \<^verbatim>\<open>products\<close> together with its \<^verbatim>\<open>categories\<close> relationship.
  The \<^verbatim>\<open>id\<close> and \<^verbatim>\<open>name\<close> of a class \<open>C\<close> are the fields \<open>C_id\<close> and \<open>C_name\<close>.
\<close>

record product =
  Product_id :: int
  Product_name :: string
  rating :: rat
  featured :: bool
  created_at :: datetime
  expiration_date :: "datetime option"
  brand_id :: int
  categories :: "category list"
  items_in_stock :: int
  receipt_date :: "datetime option"

text \<open>\<^verbatim>\<open>Product.__table__.columns\<close>.\<close>

definition columns :: "string list" where
  "columns = [''id'', ''name'', ''rating'', ''featured'', ''created_at'', ''expiration_date'',
    ''brand_id'', ''items_in_stock'', ''receipt_date'']"

text \<open>
  The database engine, a parameter: for each declared column type, the value a Python
  value is stored as (\<open>None\<close>: the statement fails), and whether foreign keys are enforced.
  \<open>rekey_assign old there new\<close> is what a flush leaves as the categories of a Product
  whose primary key changed and whose \<^verbatim>\<open>categories\<close> were assigned in the same
  request (\<open>old\<close>: those it had, \<open>there\<close>: the rows waiting under the new key,
  \<open>new\<close>: those assigned), \<open>None\<close> when the flush fails.
\<close>

record engine =
  bind_integer :: "pyval \<Rightarrow> int option"
  bind_float :: "pyval \<Rightarrow> rat option"
  bind_unicode :: "pyval \<Rightarrow> string option"
  bind_datetime :: "pyval \<Rightarrow> datetime option"
  foreign_keys :: bool
  rekey_assign :: "category list \<Rightarrow> category list \<Rightarrow> category list \<Rightarrow> category list option"

text \<open>
  The committed state behind \<^verbatim>\<open>db.session\<close>: \<^verbatim>\<open>products\<close> by primary key, the rows
  of \<^verbatim>\<open>brands\<close> and \<^verbatim>\<open>categories\<close> in the order queries return them, the next
  autoincrement value and the clock behind \<^verbatim>\<open>datetime.datetime.utcnow\<close>.

  The rows of \<^verbatim>\<open>products_categories\<close> with the id of a stored Product are the
  \<open>categories\<close> of that Product. \<open>stray_rows\<close> are the other rows, each with its
  \<^verbatim>\<open>product_id\<close>: the table declares no cascade, so an UPDATE that changes the id of a
  Product leaves its rows behind under the old id.
\<close>

record db =
  engine :: engine
  products_table :: "int \<rightharpoonup> product"
  brands_table :: "brand list"
  categories_table :: "category list"
  stray_rows :: "(int \<times> category) list"
  autoincrement :: int
  utcnow :: datetime

subsection \<open>Payload resolution\<close>

text \<open>
  An entry of the \<^verbatim>\<open>values\<close> dict: a column's Python value, or the list of Category
  objects under \<^verbatim>\<open>'categories'\<close>.
\<close>

datatype attr = Column pyval | Relationship "category list"

type_synonym attrs = "(string \<times> attr) list"

fun truthy_attr :: "attr option \<Rightarrow> bool" where
  "truthy_attr None = False"
| "truthy_attr (Some (Column v)) = truthy v"
| "truthy_attr (Some (Relationship cs)) = (cs \<noteq> [])"

text \<open>
  \<^verbatim>\<open>query(T).filter_by(name=v).first()\<close>: text compares exactly, \<^verbatim>\<open>None\<close> is
  \<^verbatim>\<open>IS NULL\<close> and matches no row, any other value is compared as the engine binds it.
\<close>

definition first_by_name ::
  "engine \<Rightarrow> ('r \<Rightarrow> string) \<Rightarrow> 'r list \<Rightarrow> pyval \<Rightarrow> error + 'r option" where
  "first_by_name e name_of rows v =
     (case v of
        PStr n \<Rightarrow> Inr (find (\<lambda>r. name_of r = n) rows)
      | PNone \<Rightarrow> Inr None
      | _ \<Rightarrow> (case bind_unicode e v of
                None \<Rightarrow> Inl DatabaseError
              | Some n \<Rightarrow> Inr (find (\<lambda>r. name_of r = n) rows)))"

text \<open>The dict comprehension of \<^verbatim>\<open>prepare_values\<close>: one query per name, in order.\<close>

fun resolve ::
  "db \<Rightarrow> pyval list \<Rightarrow> (pyval \<times> category option) list
    \<Rightarrow> error + (pyval \<times> category option) list" where
  "resolve s [] d = Inr d"
| "resolve s (name # names) d =
     then_do (first_by_name (engine s) Category_name (categories_table s) name) (\<lambda>c.
       if hashable name then resolve s names (dict_set d (py_key name) c)
       else Inl TypeError)"

definition prepare_values :: "db \<Rightarrow> pyval \<Rightarrow> error + attrs" where
  "prepare_values s payload =
     (case payload of
        PDict items \<Rightarrow>
          (let values = map (\<lambda>kv. (fst kv, Column (snd kv)))
                          (filter (\<lambda>kv. fst kv \<in> set columns) items);
               brand_name = (case map_of items ''brand'' of None \<Rightarrow> PNone | Some v \<Rightarrow> v)
           in then_do
                (if truthy brand_name then
                   then_do (first_by_name (engine s) Brand_name (brands_table s) brand_name)
                     (\<lambda>brand. case brand of
                        None \<Rightarrow> Inl (InvalidPayload Unknown_brand)
                      | Some b \<Rightarrow> Inr (dict_set values ''brand_id'' (Column (PInt (Brand_id b)))))
                 else Inr values)
                (\<lambda>values.
                   then_do (iterate (case map_of items ''categories'' of
                                       None \<Rightarrow> PList [] | Some v \<Rightarrow> v))
                     (\<lambda>names. then_do (resolve s names [])
                        (\<lambda>categories'.
                           if list_ex (\<lambda>nc. snd nc = None) categories'
                           then Inl (InvalidPayload Unknown_category)
                           else if categories' \<noteq> []
                           then Inr (dict_set values ''categories''
                                  (Relationship (List.map_filter snd categories')))
                           else Inr values))))
      | _ \<Rightarrow> Inl AttributeError)"

subsection \<open>Attribute assignment\<close>

text \<open>
  \<^verbatim>\<open>setattr(obj, k, v)\<close> on a Product: the validator registered for \<open>k\<close> runs first and
  the assignment happens only when it returns. The assigned attributes of an object are
  a dict of their own, flushed at commit.
\<close>

definition validates :: "string \<Rightarrow> pyval \<Rightarrow> error + pyval" where
  "validates k v =
     (if k = ''name'' then validate_name v
      else if k = ''featured'' then validate_featured v
      else if k = ''rating'' then validate_rating v
      else if k = ''items_in_stock'' then validate_items_in_stock v
      else Inr v)"

definition setattr :: "attrs \<Rightarrow> string \<Rightarrow> attr \<Rightarrow> error + attrs" where
  "setattr obj k v =
     (case v of
        Column x \<Rightarrow> then_do (validates k x) (\<lambda>y. Inr (dict_set obj k (Column y)))
      | Relationship cs \<Rightarrow> Inr (dict_set obj k v))"

text \<open>\<^verbatim>\<open>for k, v in values.items(): setattr(obj, k, v)\<close>, also the constructor \<^verbatim>\<open>cls(**values)\<close>.\<close>

fun setattrs :: "attrs \<Rightarrow> attrs \<Rightarrow> error + attrs" where
  "setattrs obj [] = Inr obj"
| "setattrs obj (kv # values) =
     then_do (setattr obj (fst kv) (snd kv)) (\<lambda>obj'. setattrs obj' values)"

subsection \<open>Commit\<close>

text \<open>
  What \<^verbatim>\<open>db.session.commit()\<close> does with the attributes assigned to an object, from the
  column declarations of the class: the engine binds each assigned value to the column's
  type, \<^verbatim>\<open>None\<close> is NULL and is refused by a \<^verbatim>\<open>nullable=False\<close> column, a column
  that was not assigned takes its default on INSERT and keeps its value on UPDATE, the
  primary key is unique, and \<^verbatim>\<open>brand_id\<close> references \<^verbatim>\<open>brands.id\<close> where the engine
  enforces it. Every failure is a DatabaseError.
\<close>

definition pending :: "attrs \<Rightarrow> string \<Rightarrow> pyval option" where
  "pending obj k = (case map_of obj k of Some (Column v) \<Rightarrow> Some v | _ \<Rightarrow> None)"

definition pending_categories :: "attrs \<Rightarrow> category list option" where
  "pending_categories obj =
     (case map_of obj ''categories'' of Some (Relationship cs) \<Rightarrow> Some cs | _ \<Rightarrow> None)"

definition bound :: "(pyval \<Rightarrow> 'a option) \<Rightarrow> pyval \<Rightarrow> error + 'a" where
  "bound bind v = (case bind v of None \<Rightarrow> Inl DatabaseError | Some x \<Rightarrow> Inr x)"

definition not_null :: "(pyval \<Rightarrow> 'a option) \<Rightarrow> pyval \<Rightarrow> error + 'a" where
  "not_null bind v = (if v = PNone then Inl DatabaseError else bound bind v)"

definition nullable :: "(pyval \<Rightarrow> 'a option) \<Rightarrow> pyval \<Rightarrow> error + 'a option" where
  "nullable bind v =
     (if v = PNone then Inr None else then_do (bound bind v) (\<lambda>x. Inr (Some x)))"

definition with_default :: "'a \<Rightarrow> (pyval \<Rightarrow> 'a option) \<Rightarrow> pyval \<Rightarrow> error + 'a" where
  "with_default d bind v = (if v = PNone then Inr d else bound bind v)"

definition bind_boolean :: "pyval \<Rightarrow> bool option" where
  "bind_boolean v = (case v of PBool b \<Rightarrow> Some b | _ \<Rightarrow> None)"

definition column_of :: "attrs \<Rightarrow> string \<Rightarrow> error + 'a \<Rightarrow> (pyval \<Rightarrow> error + 'a) \<Rightarrow> error + 'a" where
  "column_of obj k unset conv = (case pending obj k of None \<Rightarrow> unset | Some v \<Rightarrow> conv v)"

text \<open>The row an INSERT of a new object writes.\<close>

definition insert_row :: "db \<Rightarrow> attrs \<Rightarrow> error + product" where
  "insert_row s obj =
     then_do (column_of obj ''id'' (Inr (autoincrement s))
                (with_default (autoincrement s) (bind_integer (engine s)))) (\<lambda>c_id.
     then_do (column_of obj ''name'' (Inl DatabaseError)
                (not_null (bind_unicode (engine s)))) (\<lambda>c_name.
     then_do (column_of obj ''rating'' (Inl DatabaseError)
                (not_null (bind_float (engine s)))) (\<lambda>c_rating.
     then_do (column_of obj ''featured'' (Inr False)
                (with_default False bind_boolean)) (\<lambda>c_featured.
     then_do (column_of obj ''created_at'' (Inr (utcnow s))
                (with_default (utcnow s) (bind_datetime (engine s)))) (\<lambda>c_created_at.
     then_do (column_of obj ''expiration_date'' (Inr None)
                (nullable (bind_datetime (engine s)))) (\<lambda>c_expiration_date.
     then_do (column_of obj ''brand_id'' (Inl DatabaseError)
                (not_null (bind_integer (engine s)))) (\<lambda>c_brand_id.
     then_do (column_of obj ''items_in_stock'' (Inl DatabaseError)
                (not_null (bind_integer (engine s)))) (\<lambda>c_items_in_stock.
     then_do (column_of obj ''receipt_date'' (Inr None)
                (nullable (bind_datetime (engine s)))) (\<lambda>c_receipt_date.
     Inr \<lparr>Product_id = c_id, Product_name = c_name, rating = c_rating,
          featured = c_featured, created_at = c_created_at,
          expiration_date = c_expiration_date, brand_id = c_brand_id,
          categories = (case pending_categories obj of None \<Rightarrow> [] | Some cs \<Rightarrow> cs),
          items_in_stock = c_items_in_stock,
          receipt_date = c_receipt_date\<rparr>)))))))))"

text \<open>The rows of \<^verbatim>\<open>products_categories\<close> that wait under an id no Product has.\<close>

definition rows_of :: "db \<Rightarrow> int \<Rightarrow> category list" where
  "rows_of s pid = map snd (filter (\<lambda>r. fst r = pid) (stray_rows s))"

text \<open>
  The categories of the object stored under \<open>pid\<close> after a flush that gives it the id
  \<open>new_id\<close>. While the id stays, they are those assigned, or else those it had. When
  the id changes, the rows it had stay under the old id: an engine enforcing foreign keys
  refuses the UPDATE if there are any, and otherwise the Product has the rows found under
  its new id, or what the engine makes of an assignment in the same request.
\<close>

definition categories_after ::
  "db \<Rightarrow> int \<Rightarrow> product \<Rightarrow> attrs \<Rightarrow> int \<Rightarrow> error + category list" where
  "categories_after s pid obj changed new_id =
     (if new_id = pid
      then Inr (case pending_categories changed of None \<Rightarrow> categories obj | Some cs \<Rightarrow> cs)
      else if foreign_keys (engine s) \<and> categories obj \<noteq> [] then Inl DatabaseError
      else (case pending_categories changed of
              None \<Rightarrow> Inr (rows_of s new_id)
            | Some cs \<Rightarrow>
                (case rekey_assign (engine s) (categories obj) (rows_of s new_id) cs of
                   None \<Rightarrow> Inl DatabaseError
                 | Some cs' \<Rightarrow> Inr cs')))"

text \<open>The row an UPDATE of the object stored under \<open>pid\<close> writes.\<close>

definition update_row :: "db \<Rightarrow> int \<Rightarrow> product \<Rightarrow> attrs \<Rightarrow> error + product" where
  "update_row s pid obj changed =
     then_do (column_of changed ''id'' (Inr pid)
                (not_null (bind_integer (engine s)))) (\<lambda>c_id.
     then_do (column_of changed ''name'' (Inr (Product_name obj))
                (not_null (bind_unicode (engine s)))) (\<lambda>c_name.
     then_do (column_of changed ''rating'' (Inr (rating obj))
                (not_null (bind_float (engine s)))) (\<lambda>c_rating.
     then_do (column_of changed ''featured'' (Inr (featured obj))
                (not_null bind_boolean)) (\<lambda>c_featured.
     then_do (column_of changed ''created_at'' (Inr (created_at obj))
                (not_null (bind_datetime (engine s)))) (\<lambda>c_created_at.
     then_do (column_of changed ''expiration_date'' (Inr (expiration_date obj))
                (nullable (bind_datetime (engine s)))) (\<lambda>c_expiration_date.
     then_do (column_of changed ''brand_id'' (Inr (brand_id obj))
                (not_null (bind_integer (engine s)))) (\<lambda>c_brand_id.
     then_do (column_of changed ''items_in_stock'' (Inr (items_in_stock obj))
                (not_null (bind_integer (engine s)))) (\<lambda>c_items_in_stock.
     then_do (column_of changed ''receipt_date'' (Inr (receipt_date obj))
                (nullable (bind_datetime (engine s)))) (\<lambda>c_receipt_date.
     then_do (categories_after s pid obj changed c_id) (\<lambda>c_categories.
     Inr \<lparr>Product_id = c_id, Product_name = c_name, rating = c_rating,
          featured = c_featured, created_at = c_created_at,
          expiration_date = c_expiration_date, brand_id = c_brand_id,
          categories = c_categories,
          items_in_stock = c_items_in_stock,
          receipt_date = c_receipt_date\<rparr>))))))))))"

definition brand_of :: "db \<Rightarrow> product \<Rightarrow> brand option" where
  "brand_of s p = find (\<lambda>b. Brand_id b = brand_id p) (brands_table s)"

definition foreign_key_ok :: "db \<Rightarrow> product \<Rightarrow> bool" where
  "foreign_key_ok s p = (if foreign_keys (engine s) then brand_of s p \<noteq> None else True)"

text \<open>
  The primary key of \<^verbatim>\<open>products_categories\<close> is the pair of its columns: a row
  waiting under the id refuses the INSERT of an assigned Category with the same id.
\<close>

definition row_exists :: "db \<Rightarrow> product \<Rightarrow> bool" where
  "row_exists s row =
     list_ex (\<lambda>c. Category_id c \<in> set (map Category_id (rows_of s (Product_id row))))
       (categories row)"

text \<open>
  \<^verbatim>\<open>db.session.add(obj); db.session.commit()\<close>. The object comes back with the rows
  that waited under its id before those assigned.
\<close>

definition commit_insert :: "db \<Rightarrow> attrs \<Rightarrow> error + db \<times> product" where
  "commit_insert s obj =
     then_do (insert_row s obj) (\<lambda>row.
       if products_table s (Product_id row) \<noteq> None then Inl DatabaseError
       else if \<not> foreign_key_ok s row then Inl DatabaseError
       else if row_exists s row then Inl DatabaseError
       else Inr (s\<lparr>products_table := (products_table s)
                      (Product_id row \<mapsto>
                         row\<lparr>categories := rows_of s (Product_id row) @ categories row\<rparr>),
                    stray_rows := filter (\<lambda>r. fst r \<noteq> Product_id row) (stray_rows s),
                    autoincrement := autoincrement s + 1\<rparr>,
                 row\<lparr>categories := rows_of s (Product_id row) @ categories row\<rparr>))"

text \<open>
  The rows of \<^verbatim>\<open>products_categories\<close> that belong to no Product after the object
  stored under \<open>pid\<close> took the id \<open>new_id\<close>: when the id changed, those the object had
  are left under \<open>pid\<close>, and those under \<open>new_id\<close> are now the object's.
\<close>

definition stray_after :: "db \<Rightarrow> int \<Rightarrow> product \<Rightarrow> int \<Rightarrow> (int \<times> category) list" where
  "stray_after s pid obj new_id =
     (if new_id = pid then stray_rows s
      else map (Pair pid) (categories obj) @ filter (\<lambda>r. fst r \<noteq> new_id) (stray_rows s))"

text \<open>\<^verbatim>\<open>db.session.commit()\<close> after the attributes of the object stored under \<open>pid\<close> changed.\<close>

definition commit_update :: "db \<Rightarrow> int \<Rightarrow> product \<Rightarrow> attrs \<Rightarrow> error + db \<times> product" where
  "commit_update s pid obj changed =
     then_do (update_row s pid obj changed) (\<lambda>row.
       if Product_id row \<noteq> pid \<and> products_table s (Product_id row) \<noteq> None
       then Inl DatabaseError
       else if \<not> foreign_key_ok s row then Inl DatabaseError
       else Inr (s\<lparr>products_table :=
                      ((products_table s)(pid := None))(Product_id row \<mapsto> row),
                    stray_rows := stray_after s pid obj (Product_id row)\<rparr>, row))"

subsection \<open>Product: update, delete, retrieve, create, serialized\<close>

text \<open>
  \<^verbatim>\<open>query(Product).get(id)\<close> is \<^verbatim>\<open>None\<close> when no row has the key: \<^verbatim>\<open>setattr\<close> on it
  is an AttributeError, and with nothing to assign \<^verbatim>\<open>update\<close> commits and returns \<^verbatim>\<open>None\<close>.
\<close>

definition update :: "db \<Rightarrow> int \<Rightarrow> pyval \<Rightarrow> error + db \<times> product option" where
  "update s pid payload =
     then_do (prepare_values s payload) (\<lambda>values.
       case products_table s pid of
         None \<Rightarrow> (if values = [] then Inr (s, None) else Inl AttributeError)
       | Some obj \<Rightarrow>
           then_do (setattrs [] values) (\<lambda>changed.
             then_do (commit_update s pid obj changed) (\<lambda>r.
               Inr (fst r, Some (snd r)))))"

definition delete :: "db \<Rightarrow> int \<Rightarrow> error + db" where
  "delete s pid =
     (case products_table s pid of
        None \<Rightarrow> Inr s
      | Some obj \<Rightarrow> Inr (s\<lparr>products_table := (products_table s)(pid := None)\<rparr>))"

text \<open>\<^verbatim>\<open>query(Product).filter_by(id=id).one()\<close> raises NoResultFound when no row matches.\<close>

definition retrieve :: "db \<Rightarrow> int \<Rightarrow> error + product" where
  "retrieve s pid =
     (case products_table s pid of None \<Rightarrow> Inl NoResultFound | Some obj \<Rightarrow> Inr obj)"

definition create :: "db \<Rightarrow> pyval \<Rightarrow> error + db \<times> product" where
  "create s payload =
     then_do (prepare_values s payload) (\<lambda>values.
       if \<not> truthy_attr (map_of values ''brand_id'')
       then Inl (InvalidPayload Brand_required)
       else if \<not> truthy_attr (map_of values ''categories'')
       then Inl (InvalidPayload Categories_required)
       else then_do (setattrs [] values) (\<lambda>obj. commit_insert s obj))"

definition brand_serialized :: "brand \<Rightarrow> pyval" where
  "brand_serialized b =
     PDict [(''id'', PInt (Brand_id b)), (''name'', PStr (Brand_name b)),
            (''country_code'', PStr (country_code b))]"

definition category_serialized :: "category \<Rightarrow> pyval" where
  "category_serialized c =
     PDict [(''id'', PInt (Category_id c)), (''name'', PStr (Category_name c))]"

definition optional :: "datetime option \<Rightarrow> pyval" where
  "optional d = (case d of None \<Rightarrow> PNone | Some t \<Rightarrow> PStr t)"

text \<open>
  \<^verbatim>\<open>self.brand\<close> is the Brand that \<^verbatim>\<open>brand_id\<close> references, \<^verbatim>\<open>None\<close> when there is
  none: \<^verbatim>\<open>None.serialized\<close> is an AttributeError.
\<close>

definition serialized :: "db \<Rightarrow> product \<Rightarrow> error + pyval" where
  "serialized s self =
     (case brand_of s self of
        None \<Rightarrow> Inl AttributeError
      | Some b \<Rightarrow> Inr (PDict [
          (''id'', PInt (Product_id self)),
          (''name'', PStr (Product_name self)),
          (''rating'', PFloat (rating self)),
          (''featured'', PBool (featured self)),
          (''items_in_stock'', PInt (items_in_stock self)),
          (''receipt_date'', optional (receipt_date self)),
          (''brand'', brand_serialized b),
          (''categories'', PList (map category_serialized (categories self))),
          (''expiration_date'', optional (expiration_date self)),
          (''created_at'', PStr (created_at self))]))"

subsection \<open>Endpoints\<close>

text \<open>
  A response is its status code and, on success, the JSON body. \<^verbatim>\<open>InvalidUsage(m, c)\<close>
  becomes the response with status \<open>c\<close>; its message is not modelled.
\<close>

type_synonym response = "nat \<times> pyval option"

definition invalid_usage :: "nat \<Rightarrow> response" where
  "invalid_usage status_code = (status_code, None)"

text \<open>The handlers of \<^verbatim>\<open>update_product\<close> and \<^verbatim>\<open>get_product\<close>: NoResultFound first.\<close>

definition not_found_or_error :: "error \<Rightarrow> response" where
  "not_found_or_error e = (if e = NoResultFound then invalid_usage 404 else invalid_usage 410)"

definition create_product :: "db \<Rightarrow> pyval \<Rightarrow> db \<times> response" where
  "create_product s payload =
     (case create s payload of
        Inl e \<Rightarrow> (s, invalid_usage 410)
      | Inr r \<Rightarrow>
          (case serialized (fst r) (snd r) of
             Inl e \<Rightarrow> (fst r, invalid_usage 410)
           | Inr body \<Rightarrow> (fst r, (201, Some body))))"

definition update_product :: "db \<Rightarrow> int \<Rightarrow> pyval \<Rightarrow> db \<times> response" where
  "update_product s pid payload =
     (case update s pid payload of
        Inl e \<Rightarrow> (s, not_found_or_error e)
      | Inr r \<Rightarrow>
          (case snd r of
             None \<Rightarrow> (fst r, not_found_or_error AttributeError)
           | Some product \<Rightarrow>
               (case serialized (fst r) product of
                  Inl e \<Rightarrow> (fst r, not_found_or_error e)
                | Inr body \<Rightarrow> (fst r, (200, Some body)))))"

definition get_product :: "db \<Rightarrow> int \<Rightarrow> db \<times> response" where
  "get_product s pid =
     (case retrieve s pid of
        Inl e \<Rightarrow> (s, not_found_or_error e)
      | Inr product \<Rightarrow>
          (case serialized s product of
             Inl e \<Rightarrow> (s, not_found_or_error e)
           | Inr body \<Rightarrow> (s, (200, Some body))))"

definition delete_product :: "db \<Rightarrow> int \<Rightarrow> db \<times> response" where
  "delete_product s pid =
     (case delete s pid of
        Inl e \<Rightarrow> (s, invalid_usage 410)
      | Inr s' \<Rightarrow> (s', (204, None)))"

subsection \<open>A sample database\<close>

text \<open>
  An engine that stores numbers as numbers and text as text and does not enforce
  foreign keys, and a small shop, for evaluating the operations on concrete requests.
\<close>

definition sample_engine :: engine where
  "sample_engine =
     \<lparr>bind_integer = (\<lambda>v. case v of PInt n \<Rightarrow> Some n
                              | PBool b \<Rightarrow> Some (if b then 1 else 0) | _ \<Rightarrow> None),
      bind_float = (\<lambda>v. case v of PInt n \<Rightarrow> Some (of_int n) | PFloat r \<Rightarrow> Some r
                            | PBool b \<Rightarrow> Some (if b then 1 else 0) | _ \<Rightarrow> None),
      bind_unicode = (\<lambda>v. case v of PStr t \<Rightarrow> Some t | _ \<Rightarrow> None),
      bind_datetime = (\<lambda>v. case v of PStr t \<Rightarrow> Some t | _ \<Rightarrow> None),
      foreign_keys = False,
      rekey_assign = (\<lambda>old there new. Some new)\<rparr>"

definition acme :: brand where
  "acme = \<lparr>Brand_id = 1, Brand_name = ''acme'', country_code = ''US''\<rparr>"

definition tools :: category where
  "tools = \<lparr>Category_id = 1, Category_name = ''tools''\<rparr>"

definition toys :: category where
  "toys = \<lparr>Category_id = 2, Category_name = ''toys''\<rparr>"

definition empty_shop :: db where
  "empty_shop =
     \<lparr>engine = sample_engine, products_table = Map.empty, brands_table = [acme],
      categories_table = [tools, toys], stray_rows = [], autoincrement = 1,
      utcnow = ''2020-01-01''\<rparr>"

definition hammer :: product where
  "hammer =
     \<lparr>Product_id = 1, Product_name = ''hammer'', rating = 4, featured = False,
      created_at = ''2020-01-01'', expiration_date = None, brand_id = 1,
      categories = [tools], items_in_stock = 10, receipt_date = None\<rparr>"

definition shop :: db where
  "shop = empty_shop\<lparr>products_table := [1 \<mapsto> hammer], autoincrement := 2\<rparr>"

definition hammer_payload :: pyval where
  "hammer_payload =
     PDict [(''name'', PStr ''hammer''), (''rating'', PInt 4), (''items_in_stock'', PInt 10),
            (''brand'', PStr ''acme''), (''categories'', PList [PStr ''tools''])]"

definition saw_payload :: pyval where
  "saw_payload =
     PDict [(''name'', PStr ''saw''), (''rating'', PInt 3), (''items_in_stock'', PInt 2),
            (''brand'', PStr []), (''brand_id'', PInt 1), (''categories'', PList [PStr ''tools''])]"

definition saw :: product where
  "saw =
     \<lparr>Product_id = 2, Product_name = ''saw'', rating = 3, featured = False,
      created_at = ''2020-01-01'', expiration_date = None, brand_id = 1,
      categories = [tools], items_in_stock = 2, receipt_date = None\<rparr>"

definition hammer_body :: pyval where
  "hammer_body =
     PDict [(''id'', PInt 1), (''name'', PStr ''hammer''), (''rating'', PFloat 4),
            (''featured'', PBool False), (''items_in_stock'', PInt 10),
            (''receipt_date'', PNone),
            (''brand'', PDict [(''id'', PInt 1), (''name'', PStr ''acme''),
                               (''country_code'', PStr ''US'')]),
            (''categories'', PList [PDict [(''id'', PInt 1), (''name'', PStr ''tools'')]]),
            (''expiration_date'', PNone), (''created_at'', PStr ''2020-01-01'')]"

definition orphan_payload :: pyval where
  "orphan_payload =
     PDict [(''name'', PStr ''saw''), (''rating'', PInt 3), (''items_in_stock'', PInt 2),
            (''brand_id'', PInt 99), (''categories'', PList [PStr ''tools''])]"

definition orphan :: product where
  "orphan =
     \<lparr>Product_id = 2, Product_name = ''saw'', rating = 3, featured = False,
      created_at = ''2020-01-01'', expiration_date = None, brand_id = 99,
      categories = [tools], items_in_stock = 2, receipt_date = None\<rparr>"

definition mallet :: product where
  "mallet = hammer\<lparr>categories := [toys]\<rparr>"

subsection \<open>Notions used in the properties\<close>

text \<open>Reading the \<^verbatim>\<open>id\<close> field of a serialized Product.\<close>

definition body_id :: "pyval \<Rightarrow> int option" where
  "body_id body =
     (case body of
        PDict items \<Rightarrow> (case map_of items ''id'' of Some (PInt i) \<Rightarrow> Some i | _ \<Rightarrow> None)
      | _ \<Rightarrow> None)"

text \<open>The states of the database that requests lead to, from one without Products.\<close>

inductive reachable :: "db \<Rightarrow> bool" where
  fresh: "products_table s = Map.empty \<Longrightarrow> reachable s"
| post: "reachable s \<Longrightarrow> reachable (fst (create_product s payload))"
| put: "reachable s \<Longrightarrow> reachable (fst (update_product s pid payload))"
| get: "reachable s \<Longrightarrow> reachable (fst (get_product s pid))"
| del: "reachable s \<Longrightarrow> reachable (fst (delete_product s pid))"

definition non_negative :: "db \<Rightarrow> bool" where
  "non_negative s =
     (\<forall>pid obj. products_table s pid = Some obj \<longrightarrow>
        0 \<le> rating obj \<and> 0 \<le> items_in_stock obj)"

text \<open>
  What the invariant needs of the engine: a number that is not below zero is not stored
  as one that is.
\<close>

definition keeps_sign :: "engine \<Rightarrow> bool" where
  "keeps_sign e =
     (\<forall>v. lt_zero v = Inr False \<longrightarrow>
        (\<forall>x. bind_float e v = Some x \<longrightarrow> 0 \<le> x) \<and>
        (\<forall>n. bind_integer e v = Some n \<longrightarrow> 0 \<le> n))"

text \<open>The assigned attributes of an object went through their validators.\<close>

definition checked :: "attrs \<Rightarrow> bool" where
  "checked obj =
     ((\<forall>v. pending obj ''rating'' = Some v \<longrightarrow> lt_zero v = Inr False) \<and>
      (\<forall>v. pending obj ''items_in_stock'' = Some v \<longrightarrow> lt_zero v = Inr False))"

text \<open>The Category a name resolves to: the first row of that name.\<close>

definition named :: "db \<Rightarrow> string \<Rightarrow> category option" where
  "named s n = find (\<lambda>c. Category_name c = n) (categories_table s)"

definition named_key :: "db \<Rightarrow> pyval \<Rightarrow> category option" where
  "named_key s k = (case k of PStr n \<Rightarrow> named s n | _ \<Rightarrow> None)"

text \<open>The first half of \<^verbatim>\<open>prepare_values\<close>: the column values and the brand.\<close>

definition brand_stage :: "db \<Rightarrow> (string \<times> pyval) list \<Rightarrow> error + attrs" where
  "brand_stage s items =
     (let values = map (\<lambda>kv. (fst kv, Column (snd kv)))
                          (filter (\<lambda>kv. fst kv \<in> set columns) items);
          brand_name = (case map_of items ''brand'' of None \<Rightarrow> PNone | Some v \<Rightarrow> v)
      in if truthy brand_name then
                   then_do (first_by_name (engine s) Brand_name (brands_table s) brand_name)
                     (\<lambda>brand. case brand of
                        None \<Rightarrow> Inl (InvalidPayload Unknown_brand)
                      | Some b \<Rightarrow> Inr (dict_set values ''brand_id'' (Column (PInt (Brand_id b)))))
                 else Inr values)"

section \<open>Properties\<close>

subsection \<open>Evaluation and basic facts\<close>

lemmas sample_defs = sample_engine_def acme_def tools_def toys_def empty_shop_def hammer_def
  shop_def hammer_payload_def saw_payload_def saw_def hammer_body_def orphan_payload_def
  orphan_def mallet_def

lemmas eval_defs = then_do_def prepare_values_def columns_def first_by_name_def
  setattr_def validates_def validate_name_def validate_rating_def validate_featured_def
  validate_items_in_stock_def pending_def pending_categories_def bound_def not_null_def
  nullable_def with_default_def bind_boolean_def column_of_def insert_row_def update_row_def
  rows_of_def categories_after_def row_exists_def stray_after_def
  brand_of_def foreign_key_ok_def commit_insert_def commit_update_def update_def delete_def
  retrieve_def create_def brand_serialized_def category_serialized_def optional_def
  serialized_def invalid_usage_def not_found_or_error_def create_product_def update_product_def
  get_product_def delete_product_def List.map_filter_def sample_defs

lemma then_do_Inr: "then_do r f = Inr y \<longleftrightarrow> (\<exists>x. r = Inr x \<and> f x = Inr y)"
  by (cases r) (simp_all add: then_do_def)

lemma then_do_Inl: "then_do r f = Inl e \<longleftrightarrow> r = Inl e \<or> (\<exists>x. r = Inr x \<and> f x = Inl e)"
  by (cases r) (simp_all add: then_do_def)

lemma map_of_dict_set: "map_of (dict_set d k v) k' = (if k' = k then Some v else map_of d k')"
  by (induction d) auto

lemma map_of_column_values:
  "map_of (map (\<lambda>kv. (fst kv, Column (snd kv))) (filter (\<lambda>kv. fst kv \<in> set cols) items)) k =
     (if k \<in> set cols then map_option Column (map_of items k) else None)"
  by (induction items) auto

subsection \<open>Status codes of PUT\<close>

text \<open>No step of \<^verbatim>\<open>prepare_values\<close> raises NoResultFound.\<close>

lemma first_by_name_not_found: "first_by_name e f rows v \<noteq> Inl NoResultFound"
  by (cases v) (simp_all add: first_by_name_def split: option.splits)

lemma resolve_not_found: "resolve s names d \<noteq> Inl NoResultFound"
  by (induction names arbitrary: d) (auto simp: then_do_Inl first_by_name_not_found)

lemma iterate_not_found: "iterate v \<noteq> Inl NoResultFound"
  by (cases v) simp_all

lemma prepare_values_not_found: "prepare_values s payload \<noteq> Inl NoResultFound"
  by (cases payload)
     (auto simp: prepare_values_def Let_def then_do_Inl first_by_name_not_found
        resolve_not_found iterate_not_found split: option.splits if_splits)

text \<open>
  Claim C1 says that PUT /products/{id} answers 404 when no Product is stored under the
  id. The code does not: \<^verbatim>\<open>query(Product).get(id)\<close> returns \<^verbatim>\<open>None\<close> instead of
  raising NoResultFound, so the 404 handler of \<^verbatim>\<open>update_product\<close> is never entered.
  For every id with no stored Product and every payload the answer is 410, and the
  database is unchanged.
\<close>

theorem update_product_absent_410:
  assumes "products_table s pid = None"
  shows "update_product s pid payload = (s, (410, None))"
proof (cases "prepare_values s payload")
  case (Inl e)
  then have "e \<noteq> NoResultFound"
    using prepare_values_not_found [of s payload] by auto
  with Inl show ?thesis
    by (simp add: update_product_def update_def then_do_def not_found_or_error_def
        invalid_usage_def)
next
  case (Inr vals)
  with assms show ?thesis
    by (simp add: update_product_def update_def then_do_def not_found_or_error_def
        invalid_usage_def)
qed

theorem update_product_absent_410_witness:
  "products_table empty_shop 7 = None
   \<and> update_product empty_shop 7 (PDict [(''rating'', PInt 5)]) = (empty_shop, (410, None))
   \<and> update_product empty_shop 7 (PDict []) = (empty_shop, (410, None))"
  using update_product_absent_410 [of empty_shop 7 "PDict [(''rating'', PInt 5)]"]
    update_product_absent_410 [of empty_shop 7 "PDict []"]
  by (simp add: empty_shop_def)

subsection \<open>Validation\<close>

text \<open>
  Claim C3: the name validator accepts a text exactly when its length is at most 50,
  and raises ValueError exactly when it is longer; the test \<^verbatim>\<open>name_len < 0\<close> never
  fires, so the empty name is accepted.
\<close>

theorem validate_name_upper_bound_only:
  "(validate_name (PStr n) = Inr (PStr n)) = (length n \<le> 50)
   \<and> (validate_name (PStr n) = Inl ValueError) = (50 < length n)
   \<and> validate_name (PStr []) = Inr (PStr [])"
  by (simp add: validate_name_def then_do_def)

text \<open>
  Claim C4: updating a stored Product with \<^verbatim>\<open>{"rating": -1}\<close> raises the validator's
  ValueError (status 410), and the stored rating is afterwards what it was before.
\<close>

theorem update_negative_rating:
  assumes "products_table s pid = Some obj"
  shows "update s pid (PDict [(''rating'', PInt (- 1))]) = Inl ValueError
    \<and> update_product s pid (PDict [(''rating'', PInt (- 1))]) = (s, (410, None))
    \<and> map_option rating
         (products_table (fst (update_product s pid (PDict [(''rating'', PInt (- 1))]))) pid)
       = Some (rating obj)"
proof -
  have "update s pid (PDict [(''rating'', PInt (- 1))]) = Inl ValueError"
    using assms by (simp add: eval_defs)
  then show ?thesis using assms
    by (simp add: update_product_def not_found_or_error_def invalid_usage_def)
qed

theorem update_negative_rating_witness:
  "products_table shop 1 = Some hammer
    \<and> update shop 1 (PDict [(''rating'', PInt (- 1))]) = Inl ValueError
    \<and> update_product shop 1 (PDict [(''rating'', PInt (- 1))]) = (shop, (410, None))
    \<and> map_option rating
         (products_table (fst (update_product shop 1 (PDict [(''rating'', PInt (- 1))]))) 1)
       = Some 4"
  using update_negative_rating [of shop 1 hammer]
  by (simp add: shop_def empty_shop_def hammer_def)

subsection \<open>Creation\<close>

lemma categories_not_column: "''categories'' \<notin> set columns"
  by (simp add: columns_def)

text \<open>
  Claim C5 says that a payload whose \<^verbatim>\<open>brand\<close> is a name matching no stored Brand makes
  creation fail. \<^verbatim>\<open>prepare_values\<close> looks the name up only when it is truthy: with the
  empty name and a \<^verbatim>\<open>brand_id\<close> of its own the payload creates a record.
\<close>

theorem create_empty_brand_name_counterexample:
  "find (\<lambda>b. Brand_name b = []) (brands_table shop) = None
   \<and> create shop saw_payload
       = Inr (shop\<lparr>products_table := (products_table shop)(2 \<mapsto> saw), autoincrement := 3\<rparr>, saw)
   \<and> fst (snd (create_product shop saw_payload)) = 201
   \<and> products_table shop 2 = None
   \<and> products_table (fst (create_product shop saw_payload)) 2 = Some saw"
  by (simp add: eval_defs)

text \<open>
  Claim C5, amended: for every payload whose \<^verbatim>\<open>brand\<close> is a non-empty name that matches
  no stored Brand, \<^verbatim>\<open>prepare_values\<close> raises InvalidPayload (unknown brand), creation
  fails with status 410 and the database is unchanged.
\<close>

theorem create_unknown_brand:
  assumes "map_of items ''brand'' = Some (PStr n)" and "n \<noteq> []"
    and "find (\<lambda>b. Brand_name b = n) (brands_table s) = None"
  shows "prepare_values s (PDict items) = Inl (InvalidPayload Unknown_brand)
    \<and> create s (PDict items) = Inl (InvalidPayload Unknown_brand)
    \<and> create_product s (PDict items) = (s, (410, None))"
  using assms
  by (simp add: create_product_def create_def prepare_values_def first_by_name_def then_do_def
      invalid_usage_def)

theorem create_unknown_brand_witness:
  "map_of [(''name'', PStr ''saw''), (''brand'', PStr ''nobody'')] ''brand'' = Some (PStr ''nobody'')
   \<and> ''nobody'' \<noteq> []
   \<and> find (\<lambda>b. Brand_name b = ''nobody'') (brands_table shop) = None
   \<and> create shop (PDict [(''name'', PStr ''saw''), (''brand'', PStr ''nobody'')])
        = Inl (InvalidPayload Unknown_brand)
   \<and> create_product shop (PDict [(''name'', PStr ''saw''), (''brand'', PStr ''nobody'')])
        = (shop, (410, None))"
  using create_unknown_brand [of "[(''name'', PStr ''saw''), (''brand'', PStr ''nobody'')]"
      "''nobody''" shop]
  by (simp add: sample_defs)

text \<open>
  Claim C6: for every payload whose \<^verbatim>\<open>categories\<close> list is empty or absent, creation
  raises, the response is 410 and the database is unchanged.
\<close>

theorem create_without_categories:
  assumes "map_of items ''categories'' = None \<or> map_of items ''categories'' = Some (PList [])"
  shows "(\<exists>e. create s (PDict items) = Inl e)
    \<and> create_product s (PDict items) = (s, (410, None))"
proof -
  have "\<exists>e. create s (PDict items) = Inl e"
  proof (cases "prepare_values s (PDict items)")
    case (Inl e)
    then show ?thesis by (simp add: create_def then_do_def)
  next
    case (Inr vals)
    have "map_of vals ''categories'' = None"
      using Inr assms
      by (auto simp: prepare_values_def Let_def then_do_Inr map_of_dict_set
          map_of_column_values categories_not_column split: if_splits option.splits)
    then show ?thesis using Inr by (simp add: create_def then_do_def)
  qed
  then show ?thesis by (auto simp: create_product_def invalid_usage_def)
qed

theorem create_without_categories_witness:
  "map_of [(''name'', PStr ''saw''), (''brand'', PStr ''acme''), (''categories'', PList [])]
       ''categories'' = Some (PList [])
   \<and> create shop (PDict [(''name'', PStr ''saw''), (''brand'', PStr ''acme''), (''categories'', PList [])])
       = Inl (InvalidPayload Categories_required)
   \<and> create_product shop
        (PDict [(''name'', PStr ''saw''), (''brand'', PStr ''acme''), (''categories'', PList [])])
       = (shop, (410, None))
   \<and> map_of [(''name'', PStr ''saw''), (''brand'', PStr ''acme'')] ''categories'' = None
   \<and> create_product shop (PDict [(''name'', PStr ''saw''), (''brand'', PStr ''acme'')])
       = (shop, (410, None))"
  using create_without_categories
      [of "[(''name'', PStr ''saw''), (''brand'', PStr ''acme''), (''categories'', PList [])]" shop]
    create_without_categories [of "[(''name'', PStr ''saw''), (''brand'', PStr ''acme'')]" shop]
  by (simp add: eval_defs)

subsection \<open>Deletion and retrieval\<close>

text \<open>
  Claim C8: DELETE answers 204 for every id; when nothing is stored under the id the
  database is unchanged, otherwise that row is removed; and a GET of the id after the
  DELETE answers 404.
\<close>

theorem delete_product_then_get:
  "fst (snd (delete_product s pid)) = 204
   \<and> (if products_table s pid = None then delete_product s pid = (s, (204, None))
       else products_table (fst (delete_product s pid)) = (products_table s)(pid := None))
   \<and> snd (get_product (fst (delete_product s pid)) pid) = (404, None)"
  by (simp add: delete_product_def delete_def get_product_def retrieve_def
      not_found_or_error_def invalid_usage_def split: option.splits)

theorem delete_product_then_get_witness:
  "delete_product shop 9 = (shop, (204, None))
   \<and> fst (snd (delete_product shop 1)) = 204
   \<and> fst (snd (get_product shop 1)) = 200
   \<and> snd (get_product (fst (delete_product shop 1)) 1) = (404, None)"
  using delete_product_then_get [of shop 9] delete_product_then_get [of shop 1]
  by (simp add: eval_defs)

lemma commit_insert_stored:
  "commit_insert s obj = Inr (s', row) \<Longrightarrow>
     products_table s' (Product_id row) = Some row \<and> products_table s (Product_id row) = None"
  by (auto simp: commit_insert_def then_do_Inr split: if_splits)

lemma create_stored:
  "create s payload = Inr (s', row) \<Longrightarrow>
     products_table s' (Product_id row) = Some row \<and> products_table s (Product_id row) = None"
  by (auto simp: create_def then_do_Inr split: if_splits dest: commit_insert_stored)

lemma serialized_id: "serialized s row = Inr body \<Longrightarrow> body_id body = Some (Product_id row)"
  by (auto simp: serialized_def body_id_def split: option.splits)

text \<open>
  Claim C9: when creation succeeds and the created Product is serialized (status 201),
  the \<^verbatim>\<open>id\<close> field of the body is the id of the created record, retrieving by it
  returns that record, and GET answers 200 with the same body.
\<close>

theorem create_then_retrieve:
  assumes "create s payload = Inr (s', obj)" and "serialized s' obj = Inr body"
  shows "create_product s payload = (s', (201, Some body))
    \<and> body_id body = Some (Product_id obj)
    \<and> retrieve s' (Product_id obj) = Inr obj
    \<and> get_product s' (Product_id obj) = (s', (200, Some body))"
  using assms create_stored [OF assms(1)] serialized_id [OF assms(2)]
  by (simp add: create_product_def get_product_def retrieve_def)

theorem create_then_retrieve_witness:
  "create empty_shop hammer_payload = Inr (shop, hammer)
   \<and> serialized shop hammer = Inr hammer_body
   \<and> create_product empty_shop hammer_payload = (shop, (201, Some hammer_body))
   \<and> body_id hammer_body = Some 1
   \<and> retrieve shop 1 = Inr hammer
   \<and> get_product shop 1 = (shop, (200, Some hammer_body))"
proof -
  have c: "create empty_shop hammer_payload = Inr (shop, hammer)"
    by (simp add: eval_defs)
  have z: "serialized shop hammer = Inr hammer_body"
    by (simp add: eval_defs)
  show ?thesis using c z create_then_retrieve [OF c z] by (simp add: hammer_def)
qed

subsection \<open>A brand id of the payload\<close>

lemma resolve_brands:
  "resolve (s\<lparr>brands_table := bs\<rparr>) names d = resolve s names d"
  by (induction names arbitrary: d) (simp_all add: then_do_def split: sum.splits)

lemma brand_id_column: "''brand_id'' \<in> set columns"
  by (simp add: columns_def)

lemma first_by_name_error: "first_by_name e f rows v = Inl x \<Longrightarrow> x = DatabaseError"
  by (cases v) (auto simp: first_by_name_def split: option.splits)

lemma iterate_error: "iterate v = Inl x \<Longrightarrow> x = TypeError"
  by (cases v) auto

lemma resolve_error: "resolve s names d = Inl x \<Longrightarrow> x = DatabaseError \<or> x = TypeError"
  by (induction names arbitrary: d)
     (auto simp: then_do_Inl dest: first_by_name_error split: if_splits)

text \<open>
  Claim C10: when the payload has a truthy \<^verbatim>\<open>brand_id\<close> and no \<^verbatim>\<open>brand\<close>,
  \<^verbatim>\<open>prepare_values\<close> does not depend on the stored Brands and never raises for an
  unknown brand, the values it returns carry that \<^verbatim>\<open>brand_id\<close> as it came, and
  \<^verbatim>\<open>create\<close> goes on as if it had no test for a required brand.
\<close>

theorem brand_id_unchecked:
  assumes "map_of items ''brand_id'' = Some v" and "truthy v" and "map_of items ''brand'' = None"
  shows "prepare_values (s\<lparr>brands_table := bs\<rparr>) (PDict items) = prepare_values s (PDict items)
    \<and> (case prepare_values s (PDict items) of
          Inl e \<Rightarrow> e \<noteq> InvalidPayload Unknown_brand
        | Inr vals \<Rightarrow> map_of vals ''brand_id'' = Some (Column v))
    \<and> create s (PDict items) =
        then_do (prepare_values s (PDict items)) (\<lambda>vals.
          if \<not> truthy_attr (map_of vals ''categories'')
          then Inl (InvalidPayload Categories_required)
          else then_do (setattrs [] vals) (commit_insert s))"
proof -
  have same: "prepare_values (s\<lparr>brands_table := bs\<rparr>) (PDict items) = prepare_values s (PDict items)"
    using assms(3) by (simp add: prepare_values_def resolve_brands)
  have shape: "case prepare_values s (PDict items) of
          Inl e \<Rightarrow> e \<noteq> InvalidPayload Unknown_brand
        | Inr vals \<Rightarrow> map_of vals ''brand_id'' = Some (Column v)"
    using assms
    by (auto simp: prepare_values_def Let_def then_do_def map_of_dict_set
        map_of_column_values brand_id_column split: sum.splits if_splits
        dest: iterate_error resolve_error)
  have "create s (PDict items) =
        then_do (prepare_values s (PDict items)) (\<lambda>vals.
          if \<not> truthy_attr (map_of vals ''categories'')
          then Inl (InvalidPayload Categories_required)
          else then_do (setattrs [] vals) (commit_insert s))"
    using shape assms(2) by (cases "prepare_values s (PDict items)") (simp_all add: create_def then_do_def)
  with same shape show ?thesis by simp
qed

theorem brand_id_unchecked_witness:
  "map_of [(''name'', PStr ''saw''), (''rating'', PInt 3), (''items_in_stock'', PInt 2),
            (''brand_id'', PInt 99), (''categories'', PList [PStr ''tools''])] ''brand_id''
     = Some (PInt 99)
   \<and> truthy (PInt 99)
   \<and> map_of [(''name'', PStr ''saw''), (''rating'', PInt 3), (''items_in_stock'', PInt 2),
            (''brand_id'', PInt 99), (''categories'', PList [PStr ''tools''])] ''brand'' = None
   \<and> prepare_values (shop\<lparr>brands_table := []\<rparr>) orphan_payload = prepare_values shop orphan_payload
   \<and> find (\<lambda>b. Brand_id b = 99) (brands_table shop) = None
   \<and> create shop orphan_payload
       = Inr (shop\<lparr>products_table := (products_table shop)(2 \<mapsto> orphan), autoincrement := 3\<rparr>,
              orphan)"
  using brand_id_unchecked [where items = "[(''name'', PStr ''saw''), (''rating'', PInt 3),
      (''items_in_stock'', PInt 2), (''brand_id'', PInt 99),
      (''categories'', PList [PStr ''tools''])]" and v = "PInt 99" and s = shop and bs = "[]"]
  by (simp add: eval_defs)

subsection \<open>Ratings and stock are never negative\<close>

text \<open>
  The validators run at every assignment, so the attributes that reach a commit are
  numbers that are not below zero; a row keeps the columns that were not assigned.
\<close>

lemma then_doE:
  assumes "then_do r f = Inr y"
  obtains x where "r = Inr x" and "f x = Inr y"
  using assms by (auto simp: then_do_Inr)

lemma checked_Nil: "checked []"
  by (simp add: checked_def pending_def)

lemma validates_rating: "validates ''rating'' x = Inr y \<Longrightarrow> y = x \<and> lt_zero x = Inr False"
  by (auto simp: validates_def validate_rating_def then_do_Inr split: if_splits)

lemma validates_items_in_stock:
  "validates ''items_in_stock'' x = Inr y \<Longrightarrow> y = x \<and> lt_zero x = Inr False"
  by (auto simp: validates_def validate_items_in_stock_def then_do_Inr split: if_splits)

lemma pending_dict_set:
  "pending (dict_set obj k a) k' =
     (if k' = k then (case a of Column v \<Rightarrow> Some v | Relationship cs \<Rightarrow> None) else pending obj k')"
  by (simp add: pending_def map_of_dict_set split: attr.splits)

lemma setattr_checked:
  assumes "checked obj" and "setattr obj k a = Inr obj'"
  shows "checked obj'"
proof (cases a)
  case (Column x)
  with assms(2) obtain y where y: "validates k x = Inr y" and obj': "obj' = dict_set obj k (Column y)"
    by (auto simp: setattr_def then_do_Inr)
  show ?thesis
    using assms(1) y validates_rating [of x y] validates_items_in_stock [of x y]
    unfolding obj' checked_def pending_dict_set by auto
next
  case (Relationship cs)
  with assms show ?thesis
    by (auto simp: setattr_def checked_def pending_dict_set split: if_splits)
qed

lemma setattrs_checked: "checked obj \<Longrightarrow> setattrs obj vals = Inr obj' \<Longrightarrow> checked obj'"
proof (induction vals arbitrary: obj)
  case Nil
  then show ?case by simp
next
  case (Cons kv vals)
  from Cons.prems(2) obtain mid where mid: "setattr obj (fst kv) (snd kv) = Inr mid"
    and rest: "setattrs mid vals = Inr obj'"
    by (auto simp: then_do_Inr)
  from setattr_checked [OF Cons.prems(1) mid] rest show ?case by (rule Cons.IH)
qed

lemma column_of_not_null:
  "column_of obj k (Inl DatabaseError) (not_null bind) = Inr x \<Longrightarrow>
     \<exists>v. pending obj k = Some v \<and> bind v = Some x"
  by (auto simp: column_of_def not_null_def bound_def split: option.splits if_splits)

lemma column_of_kept:
  "column_of obj k (Inr old) (not_null bind) = Inr x \<Longrightarrow>
     (pending obj k = None \<and> x = old) \<or> (\<exists>v. pending obj k = Some v \<and> bind v = Some x)"
  by (auto simp: column_of_def not_null_def bound_def split: option.splits if_splits)

lemma insert_row_numbers:
  assumes "insert_row s obj = Inr row"
  shows "(\<exists>v. pending obj ''rating'' = Some v \<and> bind_float (engine s) v = Some (rating row))
       \<and> (\<exists>v. pending obj ''items_in_stock'' = Some v
              \<and> bind_integer (engine s) v = Some (items_in_stock row))"
  using assms unfolding insert_row_def
  by (elim then_doE) (clarsimp dest!: column_of_not_null)

lemma update_row_numbers:
  assumes "update_row s pid old changed = Inr row"
  shows "((pending changed ''rating'' = None \<and> rating row = rating old) \<or>
          (\<exists>v. pending changed ''rating'' = Some v \<and> bind_float (engine s) v = Some (rating row)))
       \<and> ((pending changed ''items_in_stock'' = None \<and> items_in_stock row = items_in_stock old) \<or>
          (\<exists>v. pending changed ''items_in_stock'' = Some v
              \<and> bind_integer (engine s) v = Some (items_in_stock row)))"
  using assms unfolding update_row_def
  apply (elim then_doE)
  apply (drule column_of_kept [where k = "''rating''"])
  apply (drule column_of_kept [where k = "''items_in_stock''"])
  apply clarsimp
  done

lemma keeps_signD:
  "keeps_sign e \<Longrightarrow> lt_zero v = Inr False \<Longrightarrow> bind_float e v = Some x \<Longrightarrow> 0 \<le> x"
  "keeps_sign e \<Longrightarrow> lt_zero v = Inr False \<Longrightarrow> bind_integer e v = Some n \<Longrightarrow> 0 \<le> n"
  by (auto simp: keeps_sign_def)

lemma checkedD:
  "checked obj \<Longrightarrow> pending obj ''rating'' = Some v \<Longrightarrow> lt_zero v = Inr False"
  "checked obj \<Longrightarrow> pending obj ''items_in_stock'' = Some v \<Longrightarrow> lt_zero v = Inr False"
  by (auto simp: checked_def)

lemma insert_row_non_negative:
  assumes "keeps_sign (engine s)" and "checked obj" and "insert_row s obj = Inr row"
  shows "0 \<le> rating row \<and> 0 \<le> items_in_stock row"
  using insert_row_numbers [OF assms(3)] assms(1,2)
  by (auto dest: checkedD keeps_signD)

lemma update_row_non_negative:
  assumes "keeps_sign (engine s)" and "checked changed"
    and "update_row s pid old changed = Inr row"
    and "0 \<le> rating old \<and> 0 \<le> items_in_stock old"
  shows "0 \<le> rating row \<and> 0 \<le> items_in_stock row"
  using update_row_numbers [OF assms(3)] assms(1,2,4)
  by (auto dest: checkedD keeps_signD)

lemma non_negative_upd:
  "non_negative s \<Longrightarrow> 0 \<le> rating row \<and> 0 \<le> items_in_stock row \<Longrightarrow>
     products_table s' = (products_table s)(k \<mapsto> row) \<Longrightarrow> non_negative s'"
  by (simp add: non_negative_def)

lemma non_negative_del:
  "non_negative s \<Longrightarrow> products_table s' = (products_table s)(k := None) \<Longrightarrow> non_negative s'"
  by (simp add: non_negative_def)

lemma create_non_negative:
  assumes "keeps_sign (engine s)" and "non_negative s" and "create s payload = Inr (s', row)"
  shows "non_negative s' \<and> engine s' = engine s"
proof -
  from assms(3) obtain vals obj where "setattrs [] vals = Inr obj"
    and c: "commit_insert s obj = Inr (s', row)"
    by (auto simp: create_def then_do_Inr split: if_splits)
  then have chk: "checked obj" using setattrs_checked [OF checked_Nil] by blast
  from c obtain new where new: "insert_row s obj = Inr new"
    and row: "rating row = rating new \<and> items_in_stock row = items_in_stock new"
    and s': "products_table s' = (products_table s)(Product_id new \<mapsto> row)"
      "engine s' = engine s"
    by (auto simp: commit_insert_def then_do_Inr split: if_splits)
  from insert_row_non_negative [OF assms(1) chk new] row
  have "0 \<le> rating row \<and> 0 \<le> items_in_stock row" by simp
  from non_negative_upd [OF assms(2) this s'(1)] s'(2) show ?thesis by simp
qed

lemma update_non_negative:
  assumes "keeps_sign (engine s)" and "non_negative s" and "update s pid payload = Inr (s', r)"
  shows "non_negative s' \<and> engine s' = engine s"
proof (cases "products_table s pid")
  case None
  with assms show ?thesis by (auto simp: update_def then_do_Inr split: if_splits)
next
  case (Some old)
  with assms(3) obtain vals changed row where "setattrs [] vals = Inr changed"
    and c: "commit_update s pid old changed = Inr (s', row)"
    by (auto simp: update_def then_do_Inr)
  then have chk: "checked changed" using setattrs_checked [OF checked_Nil] by blast
  from c have row: "update_row s pid old changed = Inr row"
    and s': "products_table s' = ((products_table s)(pid := None))(Product_id row \<mapsto> row)"
      "engine s' = engine s"
    by (auto simp: commit_update_def then_do_Inr split: if_splits)
  from Some assms(2) have old: "0 \<le> rating old \<and> 0 \<le> items_in_stock old"
    by (auto simp: non_negative_def)
  define mid where "mid = s\<lparr>products_table := (products_table s)(pid := None)\<rparr>"
  have "non_negative mid"
    by (rule non_negative_del [OF assms(2)]) (simp add: mid_def)
  moreover have "products_table s' = (products_table mid)(Product_id row \<mapsto> row)"
    "engine s' = engine s"
    by (simp_all add: s' mid_def)
  ultimately show ?thesis
    using non_negative_upd [OF _ update_row_non_negative [OF assms(1) chk row old]] by blast
qed


lemma create_product_state:
  "fst (create_product s payload) = (case create s payload of Inl e \<Rightarrow> s | Inr r \<Rightarrow> fst r)"
  by (simp add: create_product_def split: sum.splits)

lemma update_product_state:
  "fst (update_product s pid payload) = (case update s pid payload of Inl e \<Rightarrow> s | Inr r \<Rightarrow> fst r)"
  by (simp add: update_product_def split: sum.splits option.splits)

lemma get_product_state: "fst (get_product s pid) = s"
  by (simp add: get_product_def split: sum.splits)

lemma delete_product_state:
  "fst (delete_product s pid) =
     (case products_table s pid of
        None \<Rightarrow> s | Some obj \<Rightarrow> s\<lparr>products_table := (products_table s)(pid := None)\<rparr>)"
  by (simp add: delete_product_def delete_def split: option.splits)

lemma create_engine: "create s payload = Inr r \<Longrightarrow> engine (fst r) = engine s"
  by (auto simp: create_def commit_insert_def then_do_Inr split: if_splits)

lemma update_engine: "update s pid payload = Inr r \<Longrightarrow> engine (fst r) = engine s"
  by (auto simp: update_def commit_update_def then_do_Inr split: if_splits option.splits)

lemma create_product_engine: "engine (fst (create_product s payload)) = engine s"
  by (cases "create s payload") (simp_all add: create_product_state create_engine)

lemma update_product_engine: "engine (fst (update_product s pid payload)) = engine s"
  by (cases "update s pid payload") (simp_all add: update_product_state update_engine)

lemma delete_product_engine: "engine (fst (delete_product s pid)) = engine s"
  by (simp add: delete_product_state split: option.splits)

lemma create_product_non_negative:
  assumes "keeps_sign (engine s)" and "non_negative s"
  shows "non_negative (fst (create_product s payload))
       \<and> engine (fst (create_product s payload)) = engine s"
proof (cases "create s payload")
  case (Inl e)
  with assms show ?thesis by (simp add: create_product_state)
next
  case (Inr r)
  then have "create s payload = Inr (fst r, snd r)" by simp
  from create_non_negative [OF assms this] Inr show ?thesis
    by (simp add: create_product_state)
qed

lemma update_product_non_negative:
  assumes "keeps_sign (engine s)" and "non_negative s"
  shows "non_negative (fst (update_product s pid payload))
       \<and> engine (fst (update_product s pid payload)) = engine s"
proof (cases "update s pid payload")
  case (Inl e)
  with assms show ?thesis by (simp add: update_product_state)
next
  case (Inr r)
  then have "update s pid payload = Inr (fst r, snd r)" by simp
  from update_non_negative [OF assms this] Inr show ?thesis
    by (simp add: update_product_state)
qed

lemma delete_product_non_negative:
  assumes "non_negative s"
  shows "non_negative (fst (delete_product s pid))
       \<and> engine (fst (delete_product s pid)) = engine s"
proof (cases "products_table s pid")
  case None
  with assms show ?thesis by (simp add: delete_product_state)
next
  case (Some obj)
  have "non_negative (s\<lparr>products_table := (products_table s)(pid := None)\<rparr>)"
    by (rule non_negative_del [OF assms]) simp
  with Some show ?thesis by (simp add: delete_product_state)
qed

lemma reachable_engine_non_negative:
  "reachable s \<Longrightarrow> keeps_sign (engine s) \<Longrightarrow> non_negative s"
proof (induction rule: reachable.induct)
  case (fresh s)
  then show ?case by (simp add: non_negative_def)
next
  case (post s payload)
  then show ?case
    using create_product_non_negative [of s payload] by (simp add: create_product_engine)
next
  case (put s pid payload)
  then show ?case
    using update_product_non_negative [of s pid payload] by (simp add: update_product_engine)
next
  case (get s pid)
  then show ?case by (simp add: get_product_state)
next
  case (del s pid)
  then show ?case
    using delete_product_non_negative [of s pid] by (simp add: delete_product_engine)
qed

text \<open>
  Claim C7: in every state of the database that requests lead to, every stored Product
  has a rating and a number of items in stock that are not negative, and each of create,
  update, delete and retrieve leaves it so. The engine is assumed to store a number that
  is not below zero as one that is not below zero.
\<close>

theorem stock_and_rating_never_negative:
  assumes "reachable s" and "keeps_sign (engine s)"
  shows "non_negative s
    \<and> non_negative (fst (create_product s payload))
    \<and> non_negative (fst (update_product s pid payload))
    \<and> non_negative (fst (delete_product s pid))
    \<and> non_negative (fst (get_product s pid))
    \<and> (case products_table s pid of
          None \<Rightarrow> True | Some obj \<Rightarrow> 0 \<le> rating obj \<and> 0 \<le> items_in_stock obj)"
proof -
  have n: "non_negative s" using assms by (rule reachable_engine_non_negative)
  then have "case products_table s pid of
          None \<Rightarrow> True | Some obj \<Rightarrow> 0 \<le> rating obj \<and> 0 \<le> items_in_stock obj"
    by (auto simp: non_negative_def split: option.splits)
  with n create_product_non_negative [OF assms(2) n, of payload]
    update_product_non_negative [OF assms(2) n, of pid payload]
    delete_product_non_negative [OF n, of pid]
  show ?thesis by (simp add: get_product_state)
qed

lemma keeps_sign_sample: "keeps_sign sample_engine"
  unfolding keeps_sign_def
proof (intro allI impI)
  fix v assume "lt_zero v = Inr False"
  then show "(\<forall>x. bind_float sample_engine v = Some x \<longrightarrow> 0 \<le> x) \<and>
        (\<forall>n. bind_integer sample_engine v = Some n \<longrightarrow> 0 \<le> n)"
    by (cases v) (auto simp: sample_engine_def)
qed

theorem stock_and_rating_never_negative_witness:
  "reachable shop \<and> keeps_sign (engine shop)
   \<and> non_negative shop
   \<and> products_table shop 1 = Some hammer \<and> 0 \<le> rating hammer \<and> 0 \<le> items_in_stock hammer
   \<and> non_negative (fst (create_product shop saw_payload))
   \<and> non_negative (fst (update_product shop 1 (PDict [(''rating'', PInt (- 1))])))
   \<and> non_negative (fst (delete_product shop 1))"
proof -
  have "products_table empty_shop = Map.empty" by (simp add: empty_shop_def)
  then have "reachable empty_shop" by (rule reachable.fresh)
  then have "reachable (fst (create_product empty_shop hammer_payload))" by (rule reachable.post)
  moreover have "fst (create_product empty_shop hammer_payload) = shop"
    by (simp add: eval_defs)
  ultimately have r: "reachable shop" by simp
  have k: "keeps_sign (engine shop)"
    using keeps_sign_sample by (simp add: shop_def empty_shop_def)
  show ?thesis
    using r k stock_and_rating_never_negative [OF r k, where payload = saw_payload and pid = 1]
      stock_and_rating_never_negative [OF r k, where payload = "PDict [(''rating'', PInt (- 1))]" and pid = 1]
    by (simp add: shop_def empty_shop_def hammer_def)
qed

subsection \<open>Categories of an update\<close>

lemma set_dict_set_same:
  "\<forall>kv\<in>set d. snd kv = g (fst kv) \<Longrightarrow> set (dict_set d k (g k)) = insert (k, g k) (set d)"
  by (induction d) (auto simp: prod_eq_iff)

lemma resolve_names:
  assumes "\<forall>kv\<in>set d. snd kv = named_key s (fst kv)"
  shows "\<exists>d'. resolve s (map PStr names) d = Inr d'
          \<and> set d' = set d \<union> (\<lambda>n. (PStr n, named s n)) ` set names"
  using assms
proof (induction names arbitrary: d)
  case Nil
  then show ?case by simp
next
  case (Cons n names)
  let ?d = "dict_set d (PStr n) (named_key s (PStr n))"
  have s: "set ?d = insert (PStr n, named_key s (PStr n)) (set d)"
    using Cons.prems by (rule set_dict_set_same)
  then have "\<forall>kv\<in>set ?d. snd kv = named_key s (fst kv)"
    using Cons.prems by auto
  from Cons.IH [OF this] s show ?case
    by (auto simp: then_do_def first_by_name_def named_def named_key_def)
qed

lemma resolve_names_Nil:
  obtains rs where "resolve s (map PStr names) [] = Inr rs"
    and "set rs = (\<lambda>n. (PStr n, named s n)) ` set names"
  using resolve_names [of "[]" s names] by auto

lemma set_map_filter_eq: "set (List.map_filter f xs) = {y. \<exists>x\<in>set xs. f x = Some y}"
  by (induction xs) (auto simp: List.map_filter_def)

lemma resolved_facts:
  assumes "set rs = (\<lambda>n. (PStr n, named s n)) ` set names"
  shows "list_ex (\<lambda>nc. snd nc = None) rs = list_ex (\<lambda>n. named s n = None) names"
    and "(rs = []) = (names = [])"
    and "set (List.map_filter snd rs) = set (List.map_filter (named s) names)"
proof -
  show "list_ex (\<lambda>nc. snd nc = None) rs = list_ex (\<lambda>n. named s n = None) names"
    using assms by (auto simp: list_ex_iff)
  show "(rs = []) = (names = [])"
    using assms by (metis image_is_empty set_empty)
  show "set (List.map_filter snd rs) = set (List.map_filter (named s) names)"
    using assms by (auto simp: set_map_filter_eq)
qed


text \<open>Keys of the values dict and of the assigned attributes.\<close>

lemma keys_dict_set: "fst ` set (dict_set d k v) = insert k (fst ` set d)"
  by (induction d) auto

lemma setattr_keys:
  assumes "setattr obj k a = Inr obj'"
  shows "fst ` set obj' = insert k (fst ` set obj)"
proof -
  from assms obtain a' where "obj' = dict_set obj k a'"
    by (cases a) (auto simp: setattr_def then_do_Inr)
  then show ?thesis by (simp add: keys_dict_set)
qed

lemma setattrs_keys:
  "setattrs obj vals = Inr obj' \<Longrightarrow> fst ` set obj' = fst ` set obj \<union> fst ` set vals"
proof (induction vals arbitrary: obj)
  case Nil
  then show ?case by simp
next
  case (Cons kv vals)
  from Cons.prems obtain mid where mid: "setattr obj (fst kv) (snd kv) = Inr mid"
    and rest: "setattrs mid vals = Inr obj'"
    by (auto simp: then_do_Inr)
  from Cons.IH [OF rest] setattr_keys [OF mid] show ?case by auto
qed

lemma setattr_relationship:
  "setattr obj k a = Inr obj' \<Longrightarrow>
     map_of obj' ''categories'' = (if k = ''categories'' then Some a else map_of obj ''categories'')"
  by (cases a) (auto simp: setattr_def then_do_Inr map_of_dict_set validates_def)

lemma setattrs_relationship:
  "setattrs obj vals = Inr obj' \<Longrightarrow> ''categories'' \<notin> fst ` set vals \<Longrightarrow>
     map_of obj' ''categories'' = map_of obj ''categories''"
proof (induction vals arbitrary: obj)
  case Nil
  then show ?case by simp
next
  case (Cons kv vals)
  from Cons.prems(1) obtain mid where mid: "setattr obj (fst kv) (snd kv) = Inr mid"
    and rest: "setattrs mid vals = Inr obj'"
    by (auto simp: then_do_Inr)
  from Cons.IH [OF rest] setattr_relationship [OF mid] Cons.prems(2) show ?case by auto
qed

lemma dict_set_new: "k \<notin> fst ` set d \<Longrightarrow> dict_set d k v = d @ [(k, v)]"
  by (induction d) auto

lemma setattrs_append:
  "setattrs obj (xs @ ys) = then_do (setattrs obj xs) (\<lambda>mid. setattrs mid ys)"
  by (induction xs arbitrary: obj) (auto simp: then_do_def split: sum.splits)

lemma setattrs_last_relationship:
  assumes "setattrs [] (dict_set vals ''categories'' (Relationship cs)) = Inr obj"
    and "''categories'' \<notin> fst ` set vals"
  shows "pending_categories obj = Some cs"
proof -
  from assms obtain mid where "setattr mid ''categories'' (Relationship cs) = Inr obj"
    by (auto simp: dict_set_new setattrs_append then_do_Inr)
  from setattr_relationship [OF this] show ?thesis
    by (simp add: pending_categories_def)
qed

lemma update_row_categories:
  assumes "update_row s pid old changed = Inr row" and "Product_id row = pid"
  shows "categories row = (case pending_categories changed of None \<Rightarrow> categories old | Some cs \<Rightarrow> cs)"
  using assms unfolding update_row_def
  by (elim then_doE) (clarsimp simp: categories_after_def)

text \<open>The values that \<^verbatim>\<open>prepare_values\<close> returns for a list of category names.\<close>

lemma column_values_keys:
  "fst ` set (map (\<lambda>kv. (fst kv, Column (snd kv))) (filter (\<lambda>kv. fst kv \<in> set cols) items))
     \<subseteq> set cols"
  by auto

lemma brand_stage_keys:
  assumes "brand_stage s items = Inr vals"
  shows "''categories'' \<notin> fst ` set vals"
proof -
  let ?cols = "map (\<lambda>kv. (fst kv, Column (snd kv))) (filter (\<lambda>kv. fst kv \<in> set columns) items)"
  have k0: "''categories'' \<notin> fst ` set ?cols"
    using column_values_keys [of columns items] categories_not_column by blast
  have "vals = ?cols \<or> (\<exists>a. vals = dict_set ?cols ''brand_id'' a)"
    using assms
    by (auto simp: brand_stage_def Let_def then_do_Inr split: if_splits option.splits)
  then have "fst ` set vals \<subseteq> insert ''brand_id'' (fst ` set ?cols)"
    using keys_dict_set [of ?cols "''brand_id''"] by blast
  with k0 show ?thesis by auto
qed

lemma prepare_values_categories:
  assumes "map_of items ''categories'' = Some (PList (map PStr names))"
  shows "\<exists>rs. set rs = (\<lambda>n. (PStr n, named s n)) ` set names \<and>
     prepare_values s (PDict items) =
       then_do (brand_stage s items) (\<lambda>vals.
         if list_ex (\<lambda>nc. snd nc = None) rs then Inl (InvalidPayload Unknown_category)
         else if rs \<noteq> []
         then Inr (dict_set vals ''categories'' (Relationship (List.map_filter snd rs)))
         else Inr vals)"
proof -
  obtain rs where rs: "resolve s (map PStr names) [] = Inr rs"
    and set_rs: "set rs = (\<lambda>n. (PStr n, named s n)) ` set names"
    by (rule resolve_names_Nil)
  have "prepare_values s (PDict items) =
       then_do (brand_stage s items) (\<lambda>vals.
         if list_ex (\<lambda>nc. snd nc = None) rs then Inl (InvalidPayload Unknown_category)
         else if rs \<noteq> []
         then Inr (dict_set vals ''categories'' (Relationship (List.map_filter snd rs)))
         else Inr vals)"
    using assms rs
    by (simp add: prepare_values_def brand_stage_def Let_def then_do_def)
  with set_rs show ?thesis by blast
qed

lemma prepare_values_unresolved:
  assumes "map_of items ''categories'' = Some (PList (map PStr names))"
    and "list_ex (\<lambda>n. named s n = None) names"
  shows "\<exists>e. prepare_values s (PDict items) = Inl e"
proof -
  from prepare_values_categories [OF assms(1), of s] obtain rs
    where set_rs: "set rs = (\<lambda>n. (PStr n, named s n)) ` set names"
      and p: "prepare_values s (PDict items) =
       then_do (brand_stage s items) (\<lambda>vals.
         if list_ex (\<lambda>nc. snd nc = None) rs then Inl (InvalidPayload Unknown_category)
         else if rs \<noteq> []
         then Inr (dict_set vals ''categories'' (Relationship (List.map_filter snd rs)))
         else Inr vals)"
    by blast
  from resolved_facts(1) [OF set_rs] assms(2) have "list_ex (\<lambda>nc. snd nc = None) rs" by simp
  then show ?thesis unfolding p by (cases "brand_stage s items") (simp_all add: then_do_def)
qed

lemma prepare_values_resolved:
  assumes "map_of items ''categories'' = Some (PList (map PStr names))"
    and "prepare_values s (PDict items) = Inr vals"
  shows "\<not> list_ex (\<lambda>n. named s n = None) names \<and>
     (\<exists>vals0. ''categories'' \<notin> fst ` set vals0 \<and>
        (if names = [] then vals = vals0
         else \<exists>cs. vals = dict_set vals0 ''categories'' (Relationship cs)
                \<and> set cs = set (List.map_filter (named s) names)))"
proof -
  from prepare_values_categories [OF assms(1), of s] obtain rs
    where set_rs: "set rs = (\<lambda>n. (PStr n, named s n)) ` set names"
      and p: "prepare_values s (PDict items) =
       then_do (brand_stage s items) (\<lambda>vals.
         if list_ex (\<lambda>nc. snd nc = None) rs then Inl (InvalidPayload Unknown_category)
         else if rs \<noteq> []
         then Inr (dict_set vals ''categories'' (Relationship (List.map_filter snd rs)))
         else Inr vals)"
    by blast
  note facts = resolved_facts [OF set_rs]
  from assms(2) [unfolded p] obtain vals0 where b: "brand_stage s items = Inr vals0"
    and v: "(if list_ex (\<lambda>nc. snd nc = None) rs then Inl (InvalidPayload Unknown_category)
         else if rs \<noteq> []
         then Inr (dict_set vals0 ''categories'' (Relationship (List.map_filter snd rs)))
         else Inr vals0) = Inr vals"
    by (auto simp: then_do_Inr)
  from v have ok: "\<not> list_ex (\<lambda>nc. snd nc = None) rs" by (auto split: if_splits)
  with facts(1) have r1: "\<not> list_ex (\<lambda>n. named s n = None) names" by simp
  have "if names = [] then vals = vals0
         else \<exists>cs. vals = dict_set vals0 ''categories'' (Relationship cs)
                \<and> set cs = set (List.map_filter (named s) names)"
    using v ok facts(2,3) by (auto split: if_splits)
  with r1 brand_stage_keys [OF b] show ?thesis by blast
qed


lemma commit_update_result:
  assumes "commit_update s pid old changed = Inr (s', row)"
  shows "update_row s pid old changed = Inr row \<and> products_table s' (Product_id row) = Some row"
  using assms by (auto simp: commit_update_def then_do_Inr split: if_splits)

lemma update_success:
  assumes "update s pid payload = Inr (s', Some obj)"
  obtains vals old changed where "prepare_values s payload = Inr vals"
    and "products_table s pid = Some old" and "setattrs [] vals = Inr changed"
    and "commit_update s pid old changed = Inr (s', obj)"
proof (cases "products_table s pid")
  case None
  with assms show ?thesis by (auto simp: update_def then_do_Inr split: if_splits)
next
  case (Some old)
  with assms that show ?thesis by (auto simp: update_def then_do_Inr)
qed

text \<open>
  An update that changes the id: without foreign keys the Product comes back under the
  new id with no categories and its row of \<^verbatim>\<open>products_categories\<close> stays under the
  old id; an engine that enforces foreign keys refuses the update.
\<close>

lemma update_changes_id:
  "update shop 1 (PDict [(''id'', PInt 5), (''categories'', PList [])])
     = Inr (shop\<lparr>products_table := [5 \<mapsto> hammer\<lparr>Product_id := 5, categories := []\<rparr>],
                  stray_rows := [(1, tools)]\<rparr>,
            Some (hammer\<lparr>Product_id := 5, categories := []\<rparr>))"
  "update (shop\<lparr>engine := sample_engine\<lparr>foreign_keys := True\<rparr>\<rparr>) 1
       (PDict [(''id'', PInt 5), (''categories'', PList [])])
     = Inl DatabaseError"
  by (simp_all add: eval_defs)

text \<open>
  Claim C2 says that with a \<^verbatim>\<open>categories\<close> key, the empty list included, the resolved
  list replaces the category set of the Product. With the empty list \<^verbatim>\<open>prepare_values\<close>
  sets no \<^verbatim>\<open>'categories'\<close> entry (\<^verbatim>\<open>if categories:\<close>), and the update leaves the
  categories as they were.
\<close>

theorem update_empty_categories_counterexample:
  "map_of [(''categories'', PList [])] ''categories'' = Some (PList [])
   \<and> products_table shop 1 = Some hammer
   \<and> update shop 1 (PDict [(''categories'', PList [])]) = Inr (shop, Some hammer)
   \<and> update_product shop 1 (PDict [(''categories'', PList [])]) = (shop, (200, Some hammer_body))
   \<and> categories hammer = [tools]
   \<and> List.map_filter (named shop) [] = []"
  by (simp add: eval_defs named_def)

text \<open>
  Claim C2, amended: for every payload whose \<^verbatim>\<open>categories\<close> is a list of names, a name
  that resolves to no Category makes \<^verbatim>\<open>prepare_values\<close> raise and the update answer
  410 with the database unchanged; when the update succeeds every name resolved, and,
  where the Product keeps its id, its categories are the resolved ones if the list is
  not empty, and those it had before if the list is empty. An update that also changes
  the id leaves the association rows under the old id; what the Product then has is left
  open here.
\<close>

theorem update_categories:
  assumes "map_of items ''categories'' = Some (PList (map PStr names))"
  shows "(list_ex (\<lambda>n. named s n = None) names \<longrightarrow>
            (\<exists>e. prepare_values s (PDict items) = Inl e)
            \<and> update_product s pid (PDict items) = (s, (410, None)))
    \<and> (case update s pid (PDict items) of
          Inl e \<Rightarrow> True
        | Inr r \<Rightarrow>
            (case snd r of
               None \<Rightarrow> True
             | Some obj \<Rightarrow>
                 products_table (fst r) (Product_id obj) = Some obj
                 \<and> \<not> list_ex (\<lambda>n. named s n = None) names
                 \<and> (Product_id obj = pid \<longrightarrow>
                      (if names = []
                       then map_option categories (products_table s pid) = Some (categories obj)
                       else set (categories obj) = set (List.map_filter (named s) names)))))"
proof -
  have unresolved: "(\<exists>e. prepare_values s (PDict items) = Inl e)
            \<and> update_product s pid (PDict items) = (s, (410, None))"
    if "list_ex (\<lambda>n. named s n = None) names"
  proof -
    from prepare_values_unresolved [OF assms that] obtain e
      where e: "prepare_values s (PDict items) = Inl e" by blast
    then have "e \<noteq> NoResultFound" using prepare_values_not_found [of s "PDict items"] by auto
    with e show ?thesis
      by (simp add: update_product_def update_def then_do_def not_found_or_error_def
          invalid_usage_def)
  qed
  have success: "products_table s' (Product_id obj) = Some obj
                 \<and> \<not> list_ex (\<lambda>n. named s n = None) names
                 \<and> (Product_id obj = pid \<longrightarrow>
                      (if names = []
                       then map_option categories (products_table s pid) = Some (categories obj)
                       else set (categories obj) = set (List.map_filter (named s) names)))"
    if u: "update s pid (PDict items) = Inr (s', Some obj)" for s' obj
  proof -
    from u obtain vals old changed where p: "prepare_values s (PDict items) = Inr vals"
      and old: "products_table s pid = Some old" and c: "setattrs [] vals = Inr changed"
      and k: "commit_update s pid old changed = Inr (s', obj)"
      by (rule update_success)
    from commit_update_result [OF k] have row: "update_row s pid old changed = Inr obj"
      and stored: "products_table s' (Product_id obj) = Some obj" by simp_all
    from prepare_values_resolved [OF assms p] obtain vals0
      where ok: "\<not> list_ex (\<lambda>n. named s n = None) names"
        and keys: "''categories'' \<notin> fst ` set vals0"
        and shape: "if names = [] then vals = vals0
         else \<exists>cs. vals = dict_set vals0 ''categories'' (Relationship cs)
                \<and> set cs = set (List.map_filter (named s) names)"
      by blast
    have "if names = []
          then map_option categories (products_table s pid) = Some (categories obj)
          else set (categories obj) = set (List.map_filter (named s) names)"
      if same: "Product_id obj = pid"
    proof (cases "names = []")
      case True
      with shape keys have "''categories'' \<notin> fst ` set vals" by simp
      from setattrs_relationship [OF c this] have "pending_categories changed = None"
        by (simp add: pending_categories_def)
      with update_row_categories [OF row same] old True show ?thesis by simp
    next
      case False
      with shape obtain cs where v: "vals = dict_set vals0 ''categories'' (Relationship cs)"
        and cs: "set cs = set (List.map_filter (named s) names)" by auto
      from setattrs_last_relationship [OF c [unfolded v] keys]
      have "pending_categories changed = Some cs" .
      with update_row_categories [OF row same] cs False show ?thesis by simp
    qed
    with stored ok show ?thesis by simp
  qed
  show ?thesis
  proof (intro conjI impI)
    assume "list_ex (\<lambda>n. named s n = None) names"
    then show "\<exists>e. prepare_values s (PDict items) = Inl e"
      and "update_product s pid (PDict items) = (s, (410, None))"
      using unresolved by simp_all
  next
    show "case update s pid (PDict items) of
          Inl e \<Rightarrow> True
        | Inr r \<Rightarrow>
            (case snd r of
               None \<Rightarrow> True
             | Some obj \<Rightarrow>
                 products_table (fst r) (Product_id obj) = Some obj
                 \<and> \<not> list_ex (\<lambda>n. named s n = None) names
                 \<and> (Product_id obj = pid \<longrightarrow>
                      (if names = []
                       then map_option categories (products_table s pid) = Some (categories obj)
                       else set (categories obj) = set (List.map_filter (named s) names))))"
    proof (cases "update s pid (PDict items)")
      case (Inl e)
      then show ?thesis by simp
    next
      case (Inr r)
      show ?thesis
      proof (cases "snd r")
        case None
        with Inr show ?thesis by simp
      next
        case (Some obj)
        with Inr have "update s pid (PDict items) = Inr (fst r, Some obj)"
          by (simp add: prod_eq_iff)
        from success [OF this] Inr Some show ?thesis by simp
      qed
    qed
  qed
qed

theorem update_categories_witness:
  "map_of [(''categories'', PList [PStr ''toys'', PStr ''toys''])] ''categories''
      = Some (PList (map PStr [''toys'', ''toys'']))
   \<and> update shop 1 (PDict [(''categories'', PList [PStr ''toys'', PStr ''toys''])])
      = Inr (shop\<lparr>products_table := [1 \<mapsto> mallet]\<rparr>, Some mallet)
   \<and> set (categories mallet) = set (List.map_filter (named shop) [''toys'', ''toys''])
   \<and> map_of [(''categories'', PList [PStr ''toys'', PStr ''nails''])] ''categories''
      = Some (PList (map PStr [''toys'', ''nails'']))
   \<and> list_ex (\<lambda>n. named shop n = None) [''toys'', ''nails'']
   \<and> update_product shop 1 (PDict [(''categories'', PList [PStr ''toys'', PStr ''nails''])])
      = (shop, (410, None))"
  using update_categories [where items = "[(''categories'', PList [PStr ''toys'', PStr ''toys''])]"
      and names = "[''toys'', ''toys'']" and s = shop and pid = 1]
    update_categories [where items = "[(''categories'', PList [PStr ''toys'', PStr ''nails''])]"
      and names = "[''toys'', ''nails'']" and s = shop and pid = 1]
  by (simp add: eval_defs named_def)

end
